theory Spec2Isabelle
  imports Main
begin

section \<open>Python values\<close>

text \<open>
  Scalars are the values that the library formats with \<^verbatim>\<open>'%s' % x\<close> and tests for
  truth: resource ids (an integer primary key, a label, or \<^verbatim>\<open>None\<close> when absent),
  user names and keys. Containers are what a decoded body or a parameter dictionary
  holds. A dictionary is an association list in insertion order.
\<close>

datatype atom = ANone | ABool bool | AInt int | AStr string

datatype pyval = Atom atom | PList "pyval list" | PDict "(string \<times> pyval) list"

text \<open>Python's truth value, as \<^verbatim>\<open>if x:\<close> and \<^verbatim>\<open>not x\<close> read it.\<close>

fun truthy_atom :: "atom \<Rightarrow> bool" where
  "truthy_atom ANone = False"
| "truthy_atom (ABool b) = b"
| "truthy_atom (AInt i) = (i \<noteq> 0)"
| "truthy_atom (AStr s) = (s \<noteq> [])"

fun truthy :: "pyval \<Rightarrow> bool" where
  "truthy (Atom a) = truthy_atom a"
| "truthy (PList xs) = (xs \<noteq> [])"
| "truthy (PDict kvs) = (kvs \<noteq> [])"

text \<open>The decimal numeral of an integer, as \<^verbatim>\<open>str\<close> prints it.\<close>

function str_nat :: "nat \<Rightarrow> string" where
  "str_nat n =
     (if n < 10 then [''0123456789'' ! n]
      else str_nat (n div 10) @ [''0123456789'' ! (n mod 10)])"
  by pat_completeness auto
termination
  by (relation "measure id") auto

declare str_nat.simps [simp del]

definition str_int :: "int \<Rightarrow> string" where
  "str_int i = (if i < 0 then CHR ''-'' # str_nat (nat (- i)) else str_nat (nat i))"

text \<open>\<^verbatim>\<open>'%s' % x\<close> for a scalar.\<close>

fun py_str :: "atom \<Rightarrow> string" where
  "py_str ANone = ''None''"
| "py_str (ABool b) = (if b then ''True'' else ''False'')"
| "py_str (AInt i) = str_int i"
| "py_str (AStr s) = s"

text \<open>\<^verbatim>\<open>s.lstrip(c)\<close>, \<^verbatim>\<open>s.rstrip(c)\<close> and \<^verbatim>\<open>s.split(c)\<close> for a one-character \<^verbatim>\<open>c\<close>.\<close>

definition lstrip :: "char \<Rightarrow> string \<Rightarrow> string" where
  "lstrip c s = dropWhile (\<lambda>x. x = c) s"

definition rstrip :: "char \<Rightarrow> string \<Rightarrow> string" where
  "rstrip c s = rev (dropWhile (\<lambda>x. x = c) (rev s))"

fun split :: "char \<Rightarrow> string \<Rightarrow> string list" where
  "split c [] = [[]]"
| "split c (x # xs) =
     (if x = c then [] # split c xs
      else (case split c xs of
              [] \<Rightarrow> [[x]]
            | w # ws \<Rightarrow> (x # w) # ws))"

section \<open>Exceptions\<close>

record response =
  status :: int
  reason :: string

text \<open>
  \<^verbatim>\<open>dRestRequestError(msg, response, content)\<close>, \<^verbatim>\<open>dRestResourceError(msg)\<close> and
  \<^verbatim>\<open>dRestAPIError(msg)\<close> are the library's own exceptions; the others are the Python
  built-ins that the modelled code can raise.
\<close>

datatype exc =
    dRestRequestError string response pyval
  | dRestResourceError string
  | dRestAPIError string
  | AttributeError string
  | TypeError string
  | IndexError string
  | OtherError string

section \<open>The request handler\<close>

text \<open>
  Modelled from the spec: the transport handler (module \<^verbatim>\<open>drest.request\<close>, classes
  \<^verbatim>\<open>RequestHandler\<close> and \<^verbatim>\<open>TastyPieRequestHandler\<close>) is not among the sources. It
  "performs an HTTP call given verb, path, and parameters; supports header injection and
  basic-auth credential storage", and "on any non-2xx response, fails with a request
  error carrying a human-readable message, the raw response, and raw content". The model
  keeps the handler's state as the sequence of calls made on it, and takes what a
  request answers as a parameter \<open>srv\<close>: a function of the calls made so far and of the
  request, giving either the exception raised or the pair (response, decoded content).
\<close>

datatype call =
    Request_call string string pyval
  | Add_header_call string string
  | Set_auth_credentials_call atom atom

record request_handler =
  calls :: "call list"

type_synonym server =
  "call list \<Rightarrow> string \<Rightarrow> string \<Rightarrow> pyval \<Rightarrow> exc + (response \<times> pyval)"

definition handler_request ::
  "server \<Rightarrow> request_handler \<Rightarrow> string \<Rightarrow> string \<Rightarrow> pyval
     \<Rightarrow> (exc + (response \<times> pyval)) \<times> request_handler" where
  "handler_request srv rq method path params =
     (srv (calls rq) method path params,
      rq\<lparr>calls := calls rq @ [Request_call method path params]\<rparr>)"

definition add_header :: "request_handler \<Rightarrow> string \<Rightarrow> string \<Rightarrow> request_handler" where
  "add_header rq key val = rq\<lparr>calls := calls rq @ [Add_header_call key val]\<rparr>"

definition set_auth_credentials :: "request_handler \<Rightarrow> atom \<Rightarrow> atom \<Rightarrow> request_handler" where
  "set_auth_credentials rq user password =
     rq\<lparr>calls := calls rq @ [Set_auth_credentials_call user password]\<rparr>"

section \<open>Resource handlers (resource.py)\<close>

datatype handler_class = RESTResourceHandler | TastyPieResourceHandler

text \<open>
  The fields of a handler's \<^verbatim>\<open>_meta\<close>. The handler's \<^verbatim>\<open>_request\<close> is the request
  handler it was given; every method below takes and returns it explicitly, so that a
  handler registered on a connection works on the connection's own request handler.
\<close>

record resource_handler =
  handler_cls :: handler_class
  meta_baseurl :: atom
  meta_name :: string
  meta_path :: string
  meta_schema :: pyval

text \<open>
  \<^verbatim>\<open>ResourceHandler.__init__\<close>. \<open>instantiated\<close> says whether the \<^verbatim>\<open>request\<close> argument
  is a request handler instance (it has a \<^verbatim>\<open>_meta\<close>) or a class still to be
  instantiated.
\<close>

definition ResourceHandler_init ::
  "handler_class \<Rightarrow> atom \<Rightarrow> string \<Rightarrow> string \<Rightarrow> bool \<Rightarrow> exc + resource_handler" where
  "ResourceHandler_init cls baseurl path name instantiated =
     (if name = [] then Inl (dRestResourceError ''name required'')
      else if path = [] then Inl (dRestResourceError ''path required'')
      else if \<not> instantiated \<and> \<not> truthy_atom baseurl
        then Inl (dRestResourceError
               ''baseurl required when passing uninstantiated request handler.'')
      else Inr \<lparr>handler_cls = cls, meta_baseurl = baseurl, meta_name = name,
                meta_path = rstrip CHR ''/'' (lstrip CHR ''/'' path),
                meta_schema = Atom ANone\<rparr>)"

text \<open>\<^verbatim>\<open>RESTResourceHandler.request\<close>: a wrapper around the request handler's own.\<close>

definition request ::
  "server \<Rightarrow> request_handler \<Rightarrow> string \<Rightarrow> string \<Rightarrow> pyval
     \<Rightarrow> (exc + (response \<times> pyval)) \<times> request_handler" where
  "request srv rq method path params = handler_request srv rq method path params"

text \<open>
  The two messages with which the verbs re-raise a request error:
  \<^verbatim>\<open>"%s (resource: %s, id: %s)" % (e.msg, name, resource_id)\<close> and
  \<^verbatim>\<open>"%s (resource: %s)" % (e.msg, name)\<close>.
\<close>

definition msg_resource_id :: "string \<Rightarrow> string \<Rightarrow> atom \<Rightarrow> string" where
  "msg_resource_id msg name resource_id =
     msg @ '' (resource: '' @ name @ '', id: '' @ py_str resource_id @ '')''"

definition msg_resource :: "string \<Rightarrow> string \<Rightarrow> string" where
  "msg_resource msg name = msg @ '' (resource: '' @ name @ '')''"

text \<open>
  The \<^verbatim>\<open>try ... except exc.dRestRequestError as e\<close> of the verbs: a request error is
  raised again with the new message and the same response and content; any other
  exception passes through.
\<close>

fun reraise :: "(string \<Rightarrow> string) \<Rightarrow> exc + (response \<times> pyval) \<Rightarrow> exc + (response \<times> pyval)" where
  "reraise f (Inl (dRestRequestError msg resp content)) =
     Inl (dRestRequestError (f msg) resp content)"
| "reraise f r = r"

text \<open>
  The verbs. \<open>flt\<close> is the handler's \<^verbatim>\<open>filter\<close> method, which a subclass may override;
  \<^verbatim>\<open>RESTResourceHandler.filter\<close> itself returns its argument.
\<close>

definition filter_default :: "pyval \<Rightarrow> pyval" where
  "filter_default params = params"

definition get ::
  "(pyval \<Rightarrow> pyval) \<Rightarrow> server \<Rightarrow> resource_handler \<Rightarrow> atom \<Rightarrow> pyval \<Rightarrow> request_handler
     \<Rightarrow> (exc + (response \<times> pyval)) \<times> request_handler" where
  "get flt srv h resource_id params rq =
     (let path = (if truthy_atom resource_id
                  then ''/'' @ meta_path h @ ''/'' @ py_str resource_id
                  else ''/'' @ meta_path h);
          (r, rq') = request srv rq ''GET'' path (flt params)
      in (reraise (\<lambda>msg. msg_resource_id msg (meta_name h) resource_id) r, rq'))"

definition post ::
  "(pyval \<Rightarrow> pyval) \<Rightarrow> server \<Rightarrow> resource_handler \<Rightarrow> pyval \<Rightarrow> request_handler
     \<Rightarrow> (exc + (response \<times> pyval)) \<times> request_handler" where
  "post flt srv h params rq =
     (let params = flt params;
          path = ''/'' @ meta_path h;
          (r, rq') = request srv rq ''POST'' path (flt params)
      in (reraise (\<lambda>msg. msg_resource msg (meta_name h)) r, rq'))"

definition create ::
  "(pyval \<Rightarrow> pyval) \<Rightarrow> server \<Rightarrow> resource_handler \<Rightarrow> pyval \<Rightarrow> request_handler
     \<Rightarrow> (exc + (response \<times> pyval)) \<times> request_handler" where
  "create flt srv h params rq = post flt srv h params rq"

definition put ::
  "(pyval \<Rightarrow> pyval) \<Rightarrow> server \<Rightarrow> resource_handler \<Rightarrow> atom \<Rightarrow> pyval \<Rightarrow> request_handler
     \<Rightarrow> (exc + (response \<times> pyval)) \<times> request_handler" where
  "put flt srv h resource_id params rq =
     (let params = flt params;
          path = ''/'' @ meta_path h @ ''/'' @ py_str resource_id;
          (r, rq') = request srv rq ''PUT'' path params
      in (reraise (\<lambda>msg. msg_resource_id msg (meta_name h) resource_id) r, rq'))"

definition update ::
  "(pyval \<Rightarrow> pyval) \<Rightarrow> server \<Rightarrow> resource_handler \<Rightarrow> atom \<Rightarrow> pyval \<Rightarrow> request_handler
     \<Rightarrow> (exc + (response \<times> pyval)) \<times> request_handler" where
  "update flt srv h resource_id params rq = put flt srv h resource_id params rq"

definition delete ::
  "(pyval \<Rightarrow> pyval) \<Rightarrow> server \<Rightarrow> resource_handler \<Rightarrow> atom \<Rightarrow> pyval \<Rightarrow> request_handler
     \<Rightarrow> (exc + (response \<times> pyval)) \<times> request_handler" where
  "delete flt srv h resource_id params rq =
     (let path = ''/'' @ meta_path h @ ''/'' @ py_str resource_id;
          (r, rq') = request srv rq ''DELETE'' path params
      in (reraise (\<lambda>msg. msg_resource_id msg (meta_name h) resource_id) r, rq'))"

text \<open>
  \<^verbatim>\<open>TastyPieResourceHandler.get_by_uri\<close>: \<^verbatim>\<open>[-1]\<close> of a list raises
  \<^verbatim>\<open>IndexError\<close> when the list is empty.
\<close>

definition get_by_uri ::
  "(pyval \<Rightarrow> pyval) \<Rightarrow> server \<Rightarrow> resource_handler \<Rightarrow> string \<Rightarrow> pyval \<Rightarrow> request_handler
     \<Rightarrow> (exc + (response \<times> pyval)) \<times> request_handler" where
  "get_by_uri flt srv h resource_uri params rq =
     (let resource_uri = rstrip CHR ''/'' resource_uri
      in (case split CHR ''/'' resource_uri of
            [] \<Rightarrow> (Inl (IndexError ''list index out of range''), rq)
          | ps \<Rightarrow> get flt srv h (AStr (last ps)) params rq))"

text \<open>
  The \<^verbatim>\<open>schema\<close> property of \<^verbatim>\<open>TastyPieResourceHandler\<close>. It writes
  \<^verbatim>\<open>self._meta.schema\<close>, so the handler is returned with the result.
\<close>

definition schema ::
  "server \<Rightarrow> resource_handler \<Rightarrow> request_handler
     \<Rightarrow> (exc + pyval) \<times> resource_handler \<times> request_handler" where
  "schema srv h rq =
     (if \<not> truthy (meta_schema h) then
        (case request srv rq ''GET'' (meta_path h @ ''/schema'') (PDict []) of
           (Inl e, rq') \<Rightarrow> (Inl e, h, rq')
         | (Inr (resp, data), rq') \<Rightarrow> (Inr data, h\<lparr>meta_schema := data\<rparr>, rq'))
      else (Inr (meta_schema h), h, rq))"

section \<open>Connections (api.py)\<close>

datatype api_class = API | TastyPieAPI

text \<open>
  The fields of a connection's \<^verbatim>\<open>_meta\<close>: those of \<^verbatim>\<open>API.Meta\<close>, and those that
  \<^verbatim>\<open>TastyPieAPI.Meta\<close> adds, which \<^verbatim>\<open>API\<close> never reads and \<open>API_Meta\<close> leaves
  empty. The \<^verbatim>\<open>request\<close> class is the request handler modelled above.
\<close>

record api_meta =
  baseurl :: atom
  resource :: handler_class
  ignore_ssl_validation :: bool
  auto_detect_resources :: bool
  auth_mech :: string
  auth_mechanizms :: "string list"

definition API_Meta :: "atom \<Rightarrow> api_meta" where
  "API_Meta url =
     \<lparr>baseurl = url, resource = RESTResourceHandler, ignore_ssl_validation = False,
      auto_detect_resources = False, auth_mech = [], auth_mechanizms = []\<rparr>"

definition TastyPieAPI_Meta :: "atom \<Rightarrow> api_meta" where
  "TastyPieAPI_Meta url =
     \<lparr>baseurl = url, resource = TastyPieResourceHandler, ignore_ssl_validation = False,
      auto_detect_resources = True, auth_mech = ''api_key'',
      auth_mechanizms = [''api_key'', ''basic'']\<rparr>"

text \<open>
  A connection object. \<open>resources_list\<close> is \<^verbatim>\<open>self._resources\<close>, \<open>request_h\<close> is
  \<^verbatim>\<open>self._request\<close>, and \<open>attrs\<close> holds the attributes that \<^verbatim>\<open>setattr\<close> has put on
  the object. The attributes that the object has from its class and its constructor are
  listed by name below; \<open>inherited_attrs\<close> are the names it has besides from
  \<^verbatim>\<open>meta.MetaMixin\<close> and \<^verbatim>\<open>object\<close>, which are not among the sources. \<open>self_str\<close>
  is \<^verbatim>\<open>str(self)\<close>.
\<close>

record api =
  api_cls :: api_class
  meta :: api_meta
  inherited_attrs :: "string list"
  self_str :: string
  resources_list :: "string list"
  attrs :: "string \<rightharpoonup> resource_handler"
  request_h :: request_handler

definition API_attrs :: "string list" where
  "API_attrs = [''Meta'', ''__init__'', ''auth'', ''request'', ''resources'',
                ''add_resource'', ''_resources'', ''_request'']"

definition TastyPieAPI_attrs :: "string list" where
  "TastyPieAPI_attrs = [''_auth_via_basic'', ''_auth_via_api_key'', ''find_resources'']"

definition hasattr :: "api \<Rightarrow> string \<Rightarrow> bool" where
  "hasattr a name =
     (name \<in> set API_attrs
      \<or> (api_cls a = TastyPieAPI \<and> name \<in> set TastyPieAPI_attrs)
      \<or> name \<in> set (inherited_attrs a)
      \<or> attrs a name \<noteq> None)"

text \<open>
  \<^verbatim>\<open>API.__init__\<close>, from the merged \<^verbatim>\<open>_meta\<close> and the object's identity: an empty
  resource list and a new request handler, on which no call has been made.
\<close>

definition API_init :: "api_class \<Rightarrow> api_meta \<Rightarrow> string list \<Rightarrow> string \<Rightarrow> api" where
  "API_init cls m inh s =
     \<lparr>api_cls = cls, meta = m, inherited_attrs = inh, self_str = s,
      resources_list = [], attrs = Map.empty, request_h = \<lparr>calls = []\<rparr>\<rparr>"

text \<open>\<^verbatim>\<open>API.auth\<close>: HTTP basic authentication.\<close>

definition API_auth :: "api \<Rightarrow> atom \<Rightarrow> atom \<Rightarrow> (exc + unit) \<times> api" where
  "API_auth a user password =
     (Inr (), a\<lparr>request_h := set_auth_credentials (request_h a) user password\<rparr>)"

text \<open>\<^verbatim>\<open>API.request\<close>.\<close>

definition API_request ::
  "server \<Rightarrow> api \<Rightarrow> string \<Rightarrow> string \<Rightarrow> pyval \<Rightarrow> (exc + (response \<times> pyval)) \<times> api" where
  "API_request srv a method path params =
     (let (r, rq') = handler_request srv (request_h a) method path params
      in (r, a\<lparr>request_h := rq'\<rparr>))"

text \<open>\<^verbatim>\<open>API.resources\<close>.\<close>

definition resources :: "api \<Rightarrow> string list" where
  "resources a = resources_list a"

definition already_exist_msg :: "string \<Rightarrow> api \<Rightarrow> string" where
  "already_exist_msg name a =
     ''The object '' @ [CHR 0x27] @ name @ [CHR 0x27] @ '' already exist on ''
       @ [CHR 0x27] @ self_str a @ [CHR 0x27]"

text \<open>
  \<^verbatim>\<open>API.add_resource(name, resource_handler=None, path=None)\<close>. The handler is built
  on the connection's own request handler instance. \<^verbatim>\<open>resource.validate\<close> checks an
  empty list of members and is left out.
\<close>

definition add_resource ::
  "api \<Rightarrow> string \<Rightarrow> handler_class option \<Rightarrow> string option \<Rightarrow> (exc + unit) \<times> api" where
  "add_resource a name resource_handler path =
     (let path = (case path of
                    None \<Rightarrow> name
                  | Some p \<Rightarrow> if p = [] then name else lstrip CHR ''/'' p);
          handler = (case resource_handler of
                       None \<Rightarrow> resource (meta a)
                     | Some c \<Rightarrow> c)
      in (case ResourceHandler_init handler (baseurl (meta a)) path name True of
            Inl e \<Rightarrow> (Inl e, a)
          | Inr h \<Rightarrow>
              if hasattr a name
              then (Inl (dRestResourceError (already_exist_msg name a)), a)
              else (Inr (), a\<lparr>attrs := (attrs a)(name \<mapsto> h),
                              resources_list := resources_list a @ [name]\<rparr>)))"

text \<open>
  How Python binds the positional arguments \<open>args\<close> and the keyword arguments
  \<open>kw\<close> of a call to a method that has the two parameters \<open>p1\<close> and \<open>p2\<close> after
  \<^verbatim>\<open>self\<close> and accepts further keywords.
\<close>

definition bind2 ::
  "string \<Rightarrow> string \<Rightarrow> atom list \<Rightarrow> (string \<times> atom) list \<Rightarrow> exc + (atom \<times> atom)" where
  "bind2 p1 p2 args kw =
     (case args of
        [] \<Rightarrow> (case (map_of kw p1, map_of kw p2) of
                 (Some x, Some y) \<Rightarrow> Inr (x, y)
               | _ \<Rightarrow> Inl (TypeError ''missing required positional argument''))
      | [x] \<Rightarrow> (if map_of kw p1 \<noteq> None
                then Inl (TypeError ''got multiple values for argument'')
                else (case map_of kw p2 of
                        Some y \<Rightarrow> Inr (x, y)
                      | None \<Rightarrow> Inl (TypeError ''missing required positional argument'')))
      | [x, y] \<Rightarrow> (if map_of kw p1 \<noteq> None \<or> map_of kw p2 \<noteq> None
                   then Inl (TypeError ''got multiple values for argument'')
                   else Inr (x, y))
      | _ \<Rightarrow> Inl (TypeError ''too many positional arguments''))"

text \<open>\<^verbatim>\<open>TastyPieAPI._auth_via_basic\<close> and \<^verbatim>\<open>TastyPieAPI._auth_via_api_key\<close>.\<close>

definition auth_via_basic ::
  "api \<Rightarrow> atom list \<Rightarrow> (string \<times> atom) list \<Rightarrow> (exc + unit) \<times> api" where
  "auth_via_basic a args kw =
     (case bind2 ''user'' ''password'' args kw of
        Inl e \<Rightarrow> (Inl e, a)
      | Inr (user, password) \<Rightarrow> API_auth a user password)"

definition auth_via_api_key ::
  "api \<Rightarrow> atom list \<Rightarrow> (string \<times> atom) list \<Rightarrow> (exc + unit) \<times> api" where
  "auth_via_api_key a args kw =
     (case bind2 ''user'' ''api_key'' args kw of
        Inl e \<Rightarrow> (Inl e, a)
      | Inr (user, api_key) \<Rightarrow>
          (let key = ''Authorization'';
               val = ''ApiKey '' @ py_str user @ '':'' @ py_str api_key
           in (Inr (), a\<lparr>request_h := add_header (request_h a) key val\<rparr>)))"

text \<open>
  \<^verbatim>\<open>TastyPieAPI.auth\<close>. \<^verbatim>\<open>getattr(self, '_auth_via_%s' % auth_mech)\<close> finds one of
  the two methods above; for another name it raises \<^verbatim>\<open>AttributeError\<close>, or finds an
  attribute that is not one of them, and the call of that raises \<^verbatim>\<open>TypeError\<close>.
\<close>

definition auth :: "api \<Rightarrow> atom list \<Rightarrow> (string \<times> atom) list \<Rightarrow> (exc + unit) \<times> api" where
  "auth a args kw =
     (if auth_mech (meta a) \<in> set (auth_mechanizms (meta a)) then
        (let func = ''_auth_via_'' @ auth_mech (meta a)
         in if func = ''_auth_via_api_key'' then auth_via_api_key a args kw
            else if func = ''_auth_via_basic'' then auth_via_basic a args kw
            else if hasattr a func then (Inl (TypeError ''object is not callable''), a)
            else (Inl (AttributeError func), a))
      else (Inl (dRestAPIError ''Unknown TastyPie auth mechanism.''), a))"

text \<open>
  \<^verbatim>\<open>TastyPieAPI.find_resources\<close>: the loop over \<^verbatim>\<open>list(data.keys())\<close>, and the
  method. An exception ends the loop and leaves the connection as it then is.
  \<^verbatim>\<open>data.keys()\<close> raises \<^verbatim>\<open>AttributeError\<close> when the body is not a dictionary.
\<close>

fun find_resources_loop :: "api \<Rightarrow> string list \<Rightarrow> (exc + unit) \<times> api" where
  "find_resources_loop a [] = (Inr (), a)"
| "find_resources_loop a (r # rs) =
     (if r \<notin> set (resources_list a) then
        (case add_resource a r None None of
           (Inl e, a') \<Rightarrow> (Inl e, a')
         | (Inr u, a') \<Rightarrow> find_resources_loop a' rs)
      else find_resources_loop a rs)"

definition find_resources :: "server \<Rightarrow> api \<Rightarrow> (exc + unit) \<times> api" where
  "find_resources srv a =
     (case API_request srv a ''GET'' ''/'' (PDict []) of
        (Inl e, a') \<Rightarrow> (Inl e, a')
      | (Inr (resp, data), a') \<Rightarrow>
          (case data of
             PDict kvs \<Rightarrow> find_resources_loop a' (map fst kvs)
           | _ \<Rightarrow> (Inl (AttributeError ''keys''), a')))"

text \<open>\<^verbatim>\<open>TastyPieAPI.__init__\<close>.\<close>

definition TastyPieAPI_init ::
  "server \<Rightarrow> api_meta \<Rightarrow> string list \<Rightarrow> string \<Rightarrow> (exc + unit) \<times> api" where
  "TastyPieAPI_init srv m inh s =
     (let a = API_init TastyPieAPI m inh s
      in if auto_detect_resources m then find_resources srv a else (Inr (), a))"

section \<open>Concrete inputs\<close>

text \<open>
  The handlers, connections and servers at which the general theorems are instantiated
  and the code is run: a handler for the resource \<^verbatim>\<open>users\<close>, a request handler on
  which no call has been made, a \<^verbatim>\<open>TastyPieAPI\<close> connection as its constructor leaves
  it before discovery, a \<^verbatim>\<open>filter\<close> override, and servers with fixed answers.
\<close>

definition users_handler :: resource_handler where
  "users_handler =
     \<lparr>handler_cls = TastyPieResourceHandler,
      meta_baseurl = AStr ''http://localhost:8000/api/v0'',
      meta_name = ''users'', meta_path = ''users'', meta_schema = Atom ANone\<rparr>"

definition new_request_handler :: request_handler where
  "new_request_handler = \<lparr>calls = []\<rparr>"

definition tastypie_api :: api where
  "tastypie_api =
     API_init TastyPieAPI (TastyPieAPI_Meta (AStr ''http://localhost:8000/api/v0''))
       [''_meta''] ''<drest.api.TastyPieAPI object>''"

definition wrap_filter :: "pyval \<Rightarrow> pyval" where
  "wrap_filter params = PList [params]"

definition ok_server :: server where
  "ok_server cs method path params =
     Inr (\<lparr>status = 200, reason = ''OK''\<rparr>, PDict [(''path'', Atom (AStr path))])"

definition empty_body_server :: server where
  "empty_body_server cs method path params =
     Inr (\<lparr>status = 200, reason = ''OK''\<rparr>, PDict [])"

definition not_found_server :: server where
  "not_found_server cs method path params =
     Inl (dRestRequestError ''Received HTTP Code 404 - Not Found''
            \<lparr>status = 404, reason = ''Not Found''\<rparr> (Atom (AStr ''no such record'')))"

definition discovery_server :: server where
  "discovery_server cs method path params =
     Inr (\<lparr>status = 200, reason = ''OK''\<rparr>,
          PDict [(''users'', PDict [(''schema'', Atom (AStr ''/api/v0/users/schema/''))]),
                 (''projects'', PDict [(''schema'', Atom (AStr ''/api/v0/projects/schema/''))])])"

definition request_discovery_server :: server where
  "request_discovery_server cs method path params =
     Inr (\<lparr>status = 200, reason = ''OK''\<rparr>,
          PDict [(''request'', PDict [(''schema'', Atom (AStr ''/api/v0/request/schema/''))])])"

section \<open>Auxiliary facts\<close>

subsection \<open>Strings\<close>

lemma str_nat_234: "str_nat 234 = ''234''"
  by (simp add: str_nat.simps)

lemma str_nat_not_Nil: "str_nat n \<noteq> []"
  by (subst str_nat.simps) simp

lemma str_nat_chars: "set (str_nat n) \<subseteq> set ''0123456789''"
proof (induction n rule: str_nat.induct)
  case (1 n)
  have d: "\<And>k::nat. k < 10 \<Longrightarrow> ''0123456789'' ! k \<in> set ''0123456789''"
    by (rule nth_mem) simp
  show ?case
  proof (cases "n < 10")
    case True
    then show ?thesis using d [of n] by (subst str_nat.simps) simp
  next
    case False
    have "n mod 10 < 10" by simp
    with 1 False d [of "n mod 10"] show ?thesis by (subst str_nat.simps) simp
  qed
qed

lemma str_int_no_slash: "CHR ''/'' \<notin> set (str_int n)"
  using str_nat_chars [of "nat n"] str_nat_chars [of "nat (- n)"]
  by (auto simp: str_int_def)

lemma str_int_not_Nil: "str_int n \<noteq> []"
  by (simp add: str_int_def str_nat_not_Nil)

lemma split_not_Nil: "split c s \<noteq> []"
  by (induction s) (auto split: list.splits)

lemma split_no_sep: "c \<notin> set s \<Longrightarrow> split c s = [s]"
  by (induction s) auto

lemma split_append_sep: "split c (p @ c # s) = split c p @ split c s"
proof (induction p)
  case Nil
  show ?case by simp
next
  case (Cons x p)
  obtain w ws where w: "split c p = w # ws"
    using split_not_Nil [of c p] by (cases "split c p") auto
  with Cons show ?case by simp
qed

lemma last_split:
  assumes "c \<notin> set seg" and "pre = [] \<or> last pre = c"
  shows "last (split c (pre @ seg)) = seg"
proof (cases "pre = []")
  case True
  with assms show ?thesis by (simp add: split_no_sep)
next
  case False
  with assms have "pre = butlast pre @ [c]"
    by (metis append_butlast_last_id)
  then have "pre @ seg = butlast pre @ c # seg"
    by (metis append.assoc append_Cons append_Nil)
  then have "split c (pre @ seg) = split c (butlast pre) @ split c seg"
    by (simp only: split_append_sep)
  then show ?thesis
    using assms(1) by (simp add: split_no_sep)
qed

lemma rstrip_replicate:
  assumes "t = [] \<or> last t \<noteq> c"
  shows "rstrip c (t @ replicate k c) = t"
proof -
  have "dropWhile (\<lambda>x. x = c) (replicate k c @ rev t) = dropWhile (\<lambda>x. x = c) (rev t)"
    by (rule dropWhile_append2) simp
  also have "\<dots> = rev t"
    using assms by (cases "rev t") (auto simp: last_rev)
  finally show ?thesis by (simp add: rstrip_def)
qed

subsection \<open>Requests and handlers\<close>

lemma request_eq:
  "request srv rq m p ps =
     (srv (calls rq) m p ps, rq\<lparr>calls := calls rq @ [Request_call m p ps]\<rparr>)"
  by (simp add: request_def handler_request_def)

lemma schema_first:
  assumes "\<not> truthy (meta_schema h)"
    and "srv (calls rq) ''GET'' (meta_path h @ ''/schema'') (PDict []) = Inr (resp, data)"
  shows "schema srv h rq =
      (Inr data, h\<lparr>meta_schema := data\<rparr>,
       rq\<lparr>calls := calls rq @ [Request_call ''GET'' (meta_path h @ ''/schema'') (PDict [])]\<rparr>)"
  using assms by (simp add: schema_def request_eq)

lemma schema_cached:
  assumes "truthy (meta_schema h)"
  shows "schema srv h rq = (Inr (meta_schema h), h, rq)"
  using assms by (simp add: schema_def)

lemma get_by_uri_last:
  "get_by_uri flt srv h uri params rq =
     get flt srv h (AStr (last (split CHR ''/'' (rstrip CHR ''/'' uri)))) params rq"
  using split_not_Nil [of "CHR ''/''" "rstrip CHR ''/'' uri"]
  by (simp add: get_by_uri_def split: list.splits)

lemma get_str_int:
  "n \<noteq> 0 \<Longrightarrow>
     get flt srv h (AStr (str_int n)) params rq = get flt srv h (AInt n) params rq"
  by (simp add: get_def str_int_not_Nil msg_resource_id_def)

subsection \<open>Connections\<close>

lemma add_resource_cases:
  "add_resource a name rh path = (Inr (), a') \<Longrightarrow>
     \<not> hasattr a name \<and> name \<noteq> [] \<and> attrs a' name \<noteq> None
     \<and> resources_list a' = resources_list a @ [name]"
  by (auto simp: add_resource_def ResourceHandler_init_def Let_def
      split: sum.splits if_splits)

lemma add_resource_error_state:
  "add_resource a name rh path = (Inl e, a') \<Longrightarrow> a' = a"
  by (auto simp: add_resource_def Let_def split: sum.splits if_splits)

lemma add_resource_collision:
  assumes "hasattr a name"
  shows "\<exists>msg. add_resource a name rh path = (Inl (dRestResourceError msg), a)"
  using assms
  by (auto simp: add_resource_def Let_def ResourceHandler_init_def split: sum.splits)

lemma hasattr_after_add:
  assumes "add_resource a0 name rh0 path0 = (Inr (), a)"
  shows "hasattr a name"
  using add_resource_cases [OF assms] by (simp add: hasattr_def)

lemma add_resource_new:
  assumes "name \<noteq> []" and "\<not> hasattr a name"
  shows "add_resource a name None None
           = (Inr (), a\<lparr>attrs := (attrs a)(name \<mapsto>
                            \<lparr>handler_cls = resource (meta a), meta_baseurl = baseurl (meta a),
                             meta_name = name,
                             meta_path = rstrip CHR ''/'' (lstrip CHR ''/'' name),
                             meta_schema = Atom ANone\<rparr>),
                          resources_list := resources_list a @ [name]\<rparr>)"
  using assms by (simp add: add_resource_def ResourceHandler_init_def Let_def)

lemma hasattr_update:
  "hasattr (a\<lparr>attrs := (attrs a)(name \<mapsto> h), resources_list := rs\<rparr>) k
     = (hasattr a k \<or> k = name)"
  by (auto simp: hasattr_def)

lemma find_resources_loop_registers:
  assumes "distinct (resources_list a)"
    and "\<forall>n. (attrs a n \<noteq> None) = (n \<in> set (resources_list a))"
    and "\<forall>k \<in> set ks. k \<noteq> [] \<and> (hasattr a k \<longrightarrow> k \<in> set (resources_list a))"
  shows "\<exists>a'. find_resources_loop a ks = (Inr (), a')
            \<and> distinct (resources_list a')
            \<and> set (resources_list a') = set (resources_list a) \<union> set ks
            \<and> (\<forall>n. (attrs a' n \<noteq> None) = (n \<in> set (resources_list a')))
            \<and> request_h a' = request_h a"
  using assms
proof (induction ks arbitrary: a)
  case Nil
  then show ?case by simp
next
  case (Cons r rs)
  show ?case
  proof (cases "r \<in> set (resources_list a)")
    case True
    have "\<forall>k \<in> set rs. k \<noteq> [] \<and> (hasattr a k \<longrightarrow> k \<in> set (resources_list a))"
      using Cons.prems(3) by simp
    from Cons.IH [OF Cons.prems(1,2) this] True show ?thesis by auto
  next
    case False
    with Cons.prems(3) have r: "r \<noteq> []" "\<not> hasattr a r" by auto
    then obtain h where add: "add_resource a r None None
        = (Inr (), a\<lparr>attrs := (attrs a)(r \<mapsto> h), resources_list := resources_list a @ [r]\<rparr>)"
      using add_resource_new by blast
    let ?a = "a\<lparr>attrs := (attrs a)(r \<mapsto> h), resources_list := resources_list a @ [r]\<rparr>"
    have 1: "distinct (resources_list ?a)"
      using Cons.prems(1) False by simp
    have 2: "\<forall>n. (attrs ?a n \<noteq> None) = (n \<in> set (resources_list ?a))"
      using Cons.prems(2) by auto
    have 3: "\<forall>k \<in> set rs. k \<noteq> [] \<and> (hasattr ?a k \<longrightarrow> k \<in> set (resources_list ?a))"
      using Cons.prems(3) by (auto simp: hasattr_update)
    from Cons.IH [OF 1 2 3] obtain a' where a': "find_resources_loop ?a rs = (Inr (), a')"
      "distinct (resources_list a')"
      "set (resources_list a') = set (resources_list ?a) \<union> set rs"
      "\<forall>n. (attrs a' n \<noteq> None) = (n \<in> set (resources_list a'))"
      "request_h a' = request_h ?a"
      by blast
    have "find_resources_loop a (r # rs) = (Inr (), a')"
      using False add a'(1) by simp
    with a' show ?thesis by auto
  qed
qed

section \<open>The schema of a resource\<close>

text \<open>
  C1, as amended. When a handler whose schema is not yet set reads its \<^verbatim>\<open>schema\<close>
  property and the request succeeds, exactly one GET to \<^verbatim>\<open><path>/schema\<close> is
  issued and the decoded body is stored and returned. When that body is true in Python's
  sense (a dictionary that is not empty), every later read returns it and issues no
  request, whatever the server would answer and whatever calls were made on the request
  handler in between: the read leaves handler and request handler as they are.
\<close>

theorem schema_fetched_once:
  assumes "\<not> truthy (meta_schema h)"
    and "srv (calls rq) ''GET'' (meta_path h @ ''/schema'') (PDict []) = Inr (resp, data)"
    and "truthy data"
  shows "schema srv h rq =
      (Inr data, h\<lparr>meta_schema := data\<rparr>,
       rq\<lparr>calls := calls rq @ [Request_call ''GET'' (meta_path h @ ''/schema'') (PDict [])]\<rparr>)
    \<and> (\<forall>srv' rq'. schema srv' (h\<lparr>meta_schema := data\<rparr>) rq'
          = (Inr data, h\<lparr>meta_schema := data\<rparr>, rq'))"
  using assms by (simp add: schema_first schema_cached)

text \<open>
  The theorem at the handler for \<^verbatim>\<open>users\<close>: the first read asks the server, the
  second one does not, although the server would now answer with another body.
\<close>

theorem schema_fetched_once_witness:
  "schema ok_server users_handler new_request_handler =
      (Inr (PDict [(''path'', Atom (AStr ''users/schema''))]),
       users_handler\<lparr>meta_schema := PDict [(''path'', Atom (AStr ''users/schema''))]\<rparr>,
       \<lparr>calls = [Request_call ''GET'' ''users/schema'' (PDict [])]\<rparr>)
   \<and> schema empty_body_server
         (users_handler\<lparr>meta_schema := PDict [(''path'', Atom (AStr ''users/schema''))]\<rparr>)
         \<lparr>calls = [Request_call ''GET'' ''users/schema'' (PDict [])]\<rparr>
      = (Inr (PDict [(''path'', Atom (AStr ''users/schema''))]),
         users_handler\<lparr>meta_schema := PDict [(''path'', Atom (AStr ''users/schema''))]\<rparr>,
         \<lparr>calls = [Request_call ''GET'' ''users/schema'' (PDict [])]\<rparr>)"
  using schema_fetched_once [of users_handler ok_server new_request_handler
      "\<lparr>status = 200, reason = ''OK''\<rparr>" "PDict [(''path'', Atom (AStr ''users/schema''))]"]
  by (simp add: users_handler_def ok_server_def new_request_handler_def)

text \<open>
  C1 as stated fails when the decoded body is the empty dictionary: \<^verbatim>\<open>not {}\<close> is
  true, so the second read of the property issues a second GET.
\<close>

theorem schema_refetched_counterexample:
  "calls (snd (snd (schema empty_body_server
       (fst (snd (schema empty_body_server users_handler new_request_handler)))
       (snd (snd (schema empty_body_server users_handler new_request_handler))))))
   = [Request_call ''GET'' ''users/schema'' (PDict []),
      Request_call ''GET'' ''users/schema'' (PDict [])]"
  by (simp add: schema_def request_eq users_handler_def empty_body_server_def
      new_request_handler_def)

section \<open>Getting a record by its URI\<close>

text \<open>
  C2, as amended. When the URI ends, before its trailing slashes, in a segment \<open>seg\<close>
  that is not empty and holds no slash (the URI is \<open>seg\<close> itself, or what stands
  before \<open>seg\<close> ends in a slash), \<^verbatim>\<open>get_by_uri(uri, params)\<close> is
  \<^verbatim>\<open>get(seg, params)\<close> with the segment passed as the string it is: the same result
  and the same request. When \<open>seg\<close> is the numeral of an integer \<open>n\<close> other than
  0, that is also \<^verbatim>\<open>get(n, params)\<close>.
\<close>

theorem get_by_uri_equals_get:
  assumes "CHR ''/'' \<notin> set seg" and "seg \<noteq> []" and "pre = [] \<or> last pre = CHR ''/''"
  shows "get_by_uri flt srv h (pre @ seg @ replicate k CHR ''/'') params rq
           = get flt srv h (AStr seg) params rq
       \<and> (n \<noteq> 0 \<and> seg = str_int n \<longrightarrow>
            get_by_uri flt srv h (pre @ seg @ replicate k CHR ''/'') params rq
              = get flt srv h (AInt n) params rq)"
proof -
  have "last (pre @ seg) \<noteq> CHR ''/''"
    using assms(1,2) by (metis last_appendR last_in_set)
  then have "rstrip CHR ''/'' ((pre @ seg) @ replicate k CHR ''/'') = pre @ seg"
    by (intro rstrip_replicate) simp
  then have "get_by_uri flt srv h (pre @ seg @ replicate k CHR ''/'') params rq
           = get flt srv h (AStr seg) params rq"
    using assms(1,3) by (simp add: get_by_uri_last last_split)
  then show ?thesis by (auto simp: get_str_int)
qed

text \<open>
  The theorem at \<^verbatim>\<open>'/api/v1/users/234/'\<close>: \<^verbatim>\<open>get_by_uri\<close> there is
  \<^verbatim>\<open>get('234')\<close> and \<^verbatim>\<open>get(234)\<close>.
\<close>

theorem get_by_uri_equals_get_witness:
  "get_by_uri filter_default ok_server users_handler ''/api/v1/users/234/'' (PDict [])
       new_request_handler
     = get filter_default ok_server users_handler (AStr ''234'') (PDict []) new_request_handler
   \<and> get_by_uri filter_default ok_server users_handler ''/api/v1/users/234/'' (PDict [])
       new_request_handler
     = get filter_default ok_server users_handler (AInt 234) (PDict []) new_request_handler"
  using get_by_uri_equals_get [of "''234''" "''/api/v1/users/''" filter_default ok_server
      users_handler 1 "PDict []" new_request_handler 234]
  by (auto simp add: str_int_def str_nat_234)

text \<open>
  C2 as stated fails for the integer id 0: \<^verbatim>\<open>get_by_uri('/api/v1/users/0/')\<close> passes
  the string \<^verbatim>\<open>'0'\<close>, which is true in Python's sense, and requests
  \<^verbatim>\<open>/users/0\<close>, while \<^verbatim>\<open>get(0)\<close> takes the branch without an id and requests
  \<^verbatim>\<open>/users\<close>.
\<close>

theorem get_by_uri_zero_counterexample:
  "calls (snd (get_by_uri filter_default ok_server users_handler ''/api/v1/users/0/'' (PDict [])
                 new_request_handler))
     = [Request_call ''GET'' ''/users/0'' (PDict [])]
 \<and> calls (snd (get filter_default ok_server users_handler (AInt 0) (PDict [])
                 new_request_handler))
     = [Request_call ''GET'' ''/users'' (PDict [])]
 \<and> get_by_uri filter_default ok_server users_handler ''/api/v1/users/0/'' (PDict [])
       new_request_handler
     \<noteq> get filter_default ok_server users_handler (AInt 0) (PDict []) new_request_handler"
  by (simp add: get_by_uri_def get_def request_eq rstrip_def users_handler_def
      new_request_handler_def filter_default_def ok_server_def Let_def)

section \<open>Request errors\<close>

text \<open>
  C3, as amended. When the request that a verb issues raises a request error, the verb
  raises a request error with the same response and the same content. For \<^verbatim>\<open>get\<close>,
  \<^verbatim>\<open>put\<close>/\<^verbatim>\<open>update\<close> and \<^verbatim>\<open>delete\<close> its message is the transport's message
  followed by \<^verbatim>\<open>(resource: <name>, id: <id>)\<close>; for \<^verbatim>\<open>post\<close>/\<^verbatim>\<open>create\<close>, which
  take no resource id, it is the transport's message followed by \<^verbatim>\<open>(resource: <name>)\<close>.
\<close>

theorem request_error_reraised:
  "(fst (request srv rq ''GET''
           (if truthy_atom rid then ''/'' @ meta_path h @ ''/'' @ py_str rid
            else ''/'' @ meta_path h)
           (flt params))
       = Inl (dRestRequestError msg resp content)
     \<longrightarrow> fst (get flt srv h rid params rq)
       = Inl (dRestRequestError (msg_resource_id msg (meta_name h) rid) resp content))
 \<and> (fst (request srv rq ''PUT'' (''/'' @ meta_path h @ ''/'' @ py_str rid) (flt params))
       = Inl (dRestRequestError msg resp content)
     \<longrightarrow> fst (put flt srv h rid params rq)
           = Inl (dRestRequestError (msg_resource_id msg (meta_name h) rid) resp content)
       \<and> fst (update flt srv h rid params rq)
           = Inl (dRestRequestError (msg_resource_id msg (meta_name h) rid) resp content))
 \<and> (fst (request srv rq ''DELETE'' (''/'' @ meta_path h @ ''/'' @ py_str rid) params)
       = Inl (dRestRequestError msg resp content)
     \<longrightarrow> fst (delete flt srv h rid params rq)
       = Inl (dRestRequestError (msg_resource_id msg (meta_name h) rid) resp content))
 \<and> (fst (request srv rq ''POST'' (''/'' @ meta_path h) (flt (flt params)))
       = Inl (dRestRequestError msg resp content)
     \<longrightarrow> fst (post flt srv h params rq)
           = Inl (dRestRequestError (msg_resource msg (meta_name h)) resp content)
       \<and> fst (create flt srv h params rq)
           = Inl (dRestRequestError (msg_resource msg (meta_name h)) resp content))"
  by (simp add: get_def put_def update_def delete_def post_def create_def request_eq Let_def)

text \<open>
  The theorem at a server that answers every request with 404.
\<close>

theorem request_error_reraised_witness:
  "fst (get filter_default not_found_server users_handler (AInt 234) (PDict [])
          new_request_handler)
     = Inl (dRestRequestError ''Received HTTP Code 404 - Not Found (resource: users, id: 234)''
              \<lparr>status = 404, reason = ''Not Found''\<rparr> (Atom (AStr ''no such record'')))
 \<and> fst (put filter_default not_found_server users_handler (AInt 234) (PDict [])
          new_request_handler)
     = Inl (dRestRequestError ''Received HTTP Code 404 - Not Found (resource: users, id: 234)''
              \<lparr>status = 404, reason = ''Not Found''\<rparr> (Atom (AStr ''no such record'')))
 \<and> fst (delete filter_default not_found_server users_handler (AInt 234) (PDict [])
          new_request_handler)
     = Inl (dRestRequestError ''Received HTTP Code 404 - Not Found (resource: users, id: 234)''
              \<lparr>status = 404, reason = ''Not Found''\<rparr> (Atom (AStr ''no such record'')))
 \<and> fst (post filter_default not_found_server users_handler (PDict []) new_request_handler)
     = Inl (dRestRequestError ''Received HTTP Code 404 - Not Found (resource: users)''
              \<lparr>status = 404, reason = ''Not Found''\<rparr> (Atom (AStr ''no such record'')))"
  using request_error_reraised [of not_found_server new_request_handler "AInt 234" users_handler
      filter_default "PDict []" "''Received HTTP Code 404 - Not Found''"
      "\<lparr>status = 404, reason = ''Not Found''\<rparr>" "Atom (AStr ''no such record'')"]
  by (simp add: request_eq not_found_server_def msg_resource_id_def msg_resource_def
      users_handler_def str_int_def str_nat_234)

text \<open>
  C3 as stated fails for \<^verbatim>\<open>post\<close>: its message names the resource and no id.
\<close>

theorem post_error_without_id_counterexample:
  "fst (post filter_default not_found_server users_handler (PDict []) new_request_handler)
     = Inl (dRestRequestError ''Received HTTP Code 404 - Not Found (resource: users)''
              \<lparr>status = 404, reason = ''Not Found''\<rparr> (Atom (AStr ''no such record'')))
 \<and> fst (post filter_default not_found_server users_handler (PDict []) new_request_handler)
     \<noteq> Inl (dRestRequestError
              (msg_resource_id ''Received HTTP Code 404 - Not Found'' ''users'' ANone)
              \<lparr>status = 404, reason = ''Not Found''\<rparr> (Atom (AStr ''no such record'')))"
  by (simp add: post_def request_eq not_found_server_def msg_resource_id_def msg_resource_def
      users_handler_def Let_def)

section \<open>Registering resources\<close>

text \<open>
  C4. When the connection already has an attribute called \<open>name\<close>, or \<open>name\<close> was
  registered by an earlier successful \<^verbatim>\<open>add_resource\<close>, then \<^verbatim>\<open>add_resource(name, ...)\<close>
  raises a resource error, whatever handler class and path it is given, and leaves the
  connection as it was.
\<close>

theorem add_resource_twice_fails:
  assumes "hasattr a name \<or> add_resource a0 name rh0 path0 = (Inr (), a)"
  shows "\<exists>msg. add_resource a name rh path = (Inl (dRestResourceError msg), a)"
  using assms add_resource_collision hasattr_after_add by blast

text \<open>
  The theorem at a connection on which \<^verbatim>\<open>users\<close> is registered a second time, and
  at the name \<^verbatim>\<open>request\<close>, which is a method of every connection.
\<close>

theorem add_resource_twice_fails_witness:
  "(\<exists>msg. add_resource (snd (add_resource tastypie_api ''users'' None None)) ''users''
            (Some RESTResourceHandler) (Some ''/people'')
      = (Inl (dRestResourceError msg), snd (add_resource tastypie_api ''users'' None None)))
   \<and> (\<exists>msg. add_resource tastypie_api ''request'' None None
      = (Inl (dRestResourceError msg), tastypie_api))"
proof -
  have first: "add_resource tastypie_api ''users'' None None
      = (Inr (), snd (add_resource tastypie_api ''users'' None None))"
    by (simp add: add_resource_def tastypie_api_def API_init_def TastyPieAPI_Meta_def
        ResourceHandler_init_def hasattr_def API_attrs_def TastyPieAPI_attrs_def Let_def)
  have attr: "hasattr tastypie_api ''request''"
    by (simp add: hasattr_def API_attrs_def)
  show ?thesis
    using add_resource_twice_fails [of "snd (add_resource tastypie_api ''users'' None None)"
        "''users''" tastypie_api None None "Some RESTResourceHandler" "Some ''/people''"]
      add_resource_twice_fails [of tastypie_api "''request''" tastypie_api None None None None]
      first attr
    by blast
qed

text \<open>
  C10. When \<^verbatim>\<open>add_resource\<close> fails with the error that the object already exists,
  the connection is what it was before the call: the same \<^verbatim>\<open>resources\<close> and the same
  attribute, or none, under \<open>name\<close>.
\<close>

theorem add_resource_failure_keeps_state:
  assumes "fst (add_resource a name rh path)
             = Inl (dRestResourceError (already_exist_msg name a))"
  shows "snd (add_resource a name rh path) = a
       \<and> resources (snd (add_resource a name rh path)) = resources a
       \<and> attrs (snd (add_resource a name rh path)) name = attrs a name"
proof -
  obtain a' where "add_resource a name rh path
      = (Inl (dRestResourceError (already_exist_msg name a)), a')"
    using assms by (cases "add_resource a name rh path") simp
  then show ?thesis
    using add_resource_error_state by fastforce
qed

text \<open>
  The theorem at the name \<^verbatim>\<open>request\<close> on a new connection.
\<close>

theorem add_resource_failure_keeps_state_witness:
  "fst (add_resource tastypie_api ''request'' None None)
      = Inl (dRestResourceError (already_exist_msg ''request'' tastypie_api))
   \<and> snd (add_resource tastypie_api ''request'' None None) = tastypie_api
   \<and> resources (snd (add_resource tastypie_api ''request'' None None)) = []
   \<and> attrs (snd (add_resource tastypie_api ''request'' None None)) ''request'' = None"
proof -
  have failed: "fst (add_resource tastypie_api ''request'' None None)
      = Inl (dRestResourceError (already_exist_msg ''request'' tastypie_api))"
    by (simp add: add_resource_def ResourceHandler_init_def hasattr_def API_attrs_def Let_def)
  have "resources tastypie_api = []" and "attrs tastypie_api ''request'' = None"
    by (simp_all add: resources_def tastypie_api_def API_init_def)
  then show ?thesis
    using add_resource_failure_keeps_state [OF failed] failed by simp
qed

section \<open>Discovery\<close>

text \<open>
  C5, as amended. When the GET to \<^verbatim>\<open>/\<close> that the constructor of \<^verbatim>\<open>TastyPieAPI\<close>
  issues is answered with a mapping, and no key of the mapping is empty or is the name
  of an attribute that the new connection has already, the constructor returns with
  every key registered once and nothing else registered: the \<^verbatim>\<open>resources\<close> have no
  duplicates and are, as a set, the keys, and the handlers attached to the connection
  are those of the keys.
\<close>

theorem discovery_registers_keys:
  assumes "auto_detect_resources m"
    and "srv [] ''GET'' ''/'' (PDict []) = Inr (resp, PDict kvs)"
    and "\<forall>k \<in> set (map fst kvs). k \<noteq> [] \<and> \<not> hasattr (API_init TastyPieAPI m inh s) k"
  shows "\<exists>a. TastyPieAPI_init srv m inh s = (Inr (), a)
           \<and> set (resources a) = set (map fst kvs)
           \<and> distinct (resources a)
           \<and> (\<forall>n. (attrs a n \<noteq> None) = (n \<in> set (map fst kvs)))"
proof -
  let ?a0 = "API_init TastyPieAPI m inh s"
  let ?a1 = "?a0\<lparr>request_h := \<lparr>calls = [Request_call ''GET'' ''/'' (PDict [])]\<rparr>\<rparr>"
  have req: "API_request srv ?a0 ''GET'' ''/'' (PDict []) = (Inr (resp, PDict kvs), ?a1)"
    using assms(2) by (simp add: API_request_def handler_request_def API_init_def)
  have has: "hasattr ?a1 k = hasattr ?a0 k" for k
    by (simp add: hasattr_def)
  have 1: "distinct (resources_list ?a1)"
    and 2: "\<forall>n. (attrs ?a1 n \<noteq> None) = (n \<in> set (resources_list ?a1))"
    by (simp_all add: API_init_def)
  have 3: "\<forall>k \<in> set (map fst kvs). k \<noteq> [] \<and> (hasattr ?a1 k \<longrightarrow> k \<in> set (resources_list ?a1))"
    using assms(3) by (simp add: has)
  from find_resources_loop_registers [OF 1 2 3] obtain a where
    a: "find_resources_loop ?a1 (map fst kvs) = (Inr (), a)"
      "distinct (resources_list a)"
      "set (resources_list a) = set (resources_list ?a1) \<union> set (map fst kvs)"
      "\<forall>n. (attrs a n \<noteq> None) = (n \<in> set (resources_list a))"
    by blast
  have "TastyPieAPI_init srv m inh s = (Inr (), a)"
    using assms(1) req a(1) by (simp add: TastyPieAPI_init_def find_resources_def)
  moreover have "set (resources_list a) = set (map fst kvs)"
    using a(3) by (simp add: API_init_def)
  ultimately show ?thesis
    using a(2,4) by (auto simp: resources_def)
qed

text \<open>
  The theorem at a discovery response with the keys \<^verbatim>\<open>users\<close> and \<^verbatim>\<open>projects\<close>.
\<close>

theorem discovery_registers_keys_witness:
  "\<exists>a. TastyPieAPI_init discovery_server
          (TastyPieAPI_Meta (AStr ''http://localhost:8000/api/v0''))
          [''_meta''] ''<drest.api.TastyPieAPI object>'' = (Inr (), a)
      \<and> set (resources a) = {''users'', ''projects''}
      \<and> distinct (resources a)
      \<and> attrs a ''users'' \<noteq> None \<and> attrs a ''projects'' \<noteq> None \<and> attrs a ''groups'' = None"
proof -
  let ?m = "TastyPieAPI_Meta (AStr ''http://localhost:8000/api/v0'')"
  let ?kvs = "[(''users'', PDict [(''schema'', Atom (AStr ''/api/v0/users/schema/''))]),
               (''projects'', PDict [(''schema'', Atom (AStr ''/api/v0/projects/schema/''))])]"
  have 1: "auto_detect_resources ?m"
    by (simp add: TastyPieAPI_Meta_def)
  have 2: "discovery_server [] ''GET'' ''/'' (PDict [])
      = Inr (\<lparr>status = 200, reason = ''OK''\<rparr>, PDict ?kvs)"
    by (simp add: discovery_server_def)
  have 3: "\<forall>k \<in> set (map fst ?kvs). k \<noteq> []
      \<and> \<not> hasattr (API_init TastyPieAPI ?m [''_meta''] ''<drest.api.TastyPieAPI object>'') k"
    by (simp add: hasattr_def API_init_def API_attrs_def TastyPieAPI_attrs_def)
  from discovery_registers_keys [where m = ?m and srv = discovery_server and kvs = ?kvs
        and resp = "\<lparr>status = 200, reason = ''OK''\<rparr>" and inh = "[''_meta'']"
        and s = "''<drest.api.TastyPieAPI object>''", OF 1 2 3]
  obtain a where a: "TastyPieAPI_init discovery_server ?m [''_meta'']
        ''<drest.api.TastyPieAPI object>'' = (Inr (), a)"
      "set (resources a) = set (map fst ?kvs)" "distinct (resources a)"
      "\<forall>n. (attrs a n \<noteq> None) = (n \<in> set (map fst ?kvs))"
    by blast
  have "set (resources a) = {''users'', ''projects''}"
    using a(2) by simp
  moreover have "attrs a ''users'' \<noteq> None" "attrs a ''projects'' \<noteq> None"
    using a(4) by simp_all
  moreover have "attrs a ''groups'' = None"
    using spec [OF a(4), of "''groups''"] by simp
  ultimately show ?thesis
    using a(1,3) by blast
qed

text \<open>
  C5 as stated fails when a key is the name of an attribute of the connection: for a
  body with the one key \<^verbatim>\<open>request\<close>, which is a method of the connection, the
  constructor raises the resource error of \<^verbatim>\<open>add_resource\<close> and registers nothing.
\<close>

theorem discovery_collision_counterexample:
  "fst (TastyPieAPI_init request_discovery_server
          (TastyPieAPI_Meta (AStr ''http://localhost:8000/api/v0''))
          [''_meta''] ''<drest.api.TastyPieAPI object>'')
     = Inl (dRestResourceError (already_exist_msg ''request'' tastypie_api))
   \<and> resources (snd (TastyPieAPI_init request_discovery_server
          (TastyPieAPI_Meta (AStr ''http://localhost:8000/api/v0''))
          [''_meta''] ''<drest.api.TastyPieAPI object>''))
     = []"
  by (simp add: TastyPieAPI_init_def TastyPieAPI_Meta_def find_resources_def API_request_def
      handler_request_def API_init_def request_discovery_server_def add_resource_def
      ResourceHandler_init_def hasattr_def API_attrs_def TastyPieAPI_attrs_def Let_def
      already_exist_msg_def tastypie_api_def resources_def)

section \<open>The filter hook\<close>

text \<open>
  C6. With a \<^verbatim>\<open>filter\<close> that wraps its argument in a list, \<^verbatim>\<open>delete\<close> passes the
  parameters to the request handler as they came, not filtered, and \<^verbatim>\<open>post\<close> passes
  them filtered twice; \<^verbatim>\<open>filter(params)\<close> is neither.
\<close>

theorem filter_applied_twice_or_never:
  "calls (snd (delete wrap_filter ok_server users_handler (AInt 1) (PDict [])
                 new_request_handler))
     = [Request_call ''DELETE'' ''/users/1'' (PDict [])]
 \<and> calls (snd (post wrap_filter ok_server users_handler (PDict []) new_request_handler))
     = [Request_call ''POST'' ''/users'' (PList [PList [PDict []]])]
 \<and> wrap_filter (PDict []) = PList [PDict []]"
  by (simp add: delete_def post_def request_eq wrap_filter_def users_handler_def
      new_request_handler_def str_int_def str_nat.simps Let_def)

section \<open>Request paths\<close>

text \<open>
  C7, as amended. For a handler with path \<open>p\<close>: \<^verbatim>\<open>get\<close> with no resource id issues
  its request to \<^verbatim>\<open>/p\<close>; \<^verbatim>\<open>get\<close> with a resource id that is true in Python's sense
  issues it to \<^verbatim>\<open>/p/<id>\<close>; \<^verbatim>\<open>put\<close> and \<^verbatim>\<open>delete\<close> issue theirs to
  \<^verbatim>\<open>/p/<id>\<close> for every id; \<^verbatim>\<open>post\<close> goes to \<^verbatim>\<open>/p\<close>. Each verb issues exactly
  that one request.
\<close>

theorem request_paths:
  "calls (snd (get flt srv h ANone params rq))
     = calls rq @ [Request_call ''GET'' (''/'' @ meta_path h) (flt params)]
 \<and> (truthy_atom rid \<longrightarrow>
      calls (snd (get flt srv h rid params rq))
        = calls rq @ [Request_call ''GET'' (''/'' @ meta_path h @ ''/'' @ py_str rid)
                        (flt params)])
 \<and> calls (snd (put flt srv h rid params rq))
     = calls rq @ [Request_call ''PUT'' (''/'' @ meta_path h @ ''/'' @ py_str rid) (flt params)]
 \<and> calls (snd (delete flt srv h rid params rq))
     = calls rq @ [Request_call ''DELETE'' (''/'' @ meta_path h @ ''/'' @ py_str rid) params]
 \<and> calls (snd (post flt srv h params rq))
     = calls rq @ [Request_call ''POST'' (''/'' @ meta_path h) (flt (flt params))]"
  by (simp add: get_def put_def delete_def post_def request_eq Let_def)

text \<open>
  The theorem at the handler for \<^verbatim>\<open>users\<close>, without an id and with the id 234.
\<close>

theorem request_paths_witness:
  "calls (snd (get filter_default ok_server users_handler ANone (PDict []) new_request_handler))
     = [Request_call ''GET'' ''/users'' (PDict [])]
 \<and> calls (snd (get filter_default ok_server users_handler (AInt 234) (PDict [])
                 new_request_handler))
     = [Request_call ''GET'' ''/users/234'' (PDict [])]
 \<and> calls (snd (put filter_default ok_server users_handler (AInt 234) (PDict [])
                 new_request_handler))
     = [Request_call ''PUT'' ''/users/234'' (PDict [])]
 \<and> calls (snd (delete filter_default ok_server users_handler (AInt 234) (PDict [])
                 new_request_handler))
     = [Request_call ''DELETE'' ''/users/234'' (PDict [])]
 \<and> calls (snd (post filter_default ok_server users_handler (PDict []) new_request_handler))
     = [Request_call ''POST'' ''/users'' (PDict [])]"
  using request_paths [of filter_default ok_server users_handler "PDict []" new_request_handler
      "AInt 234"]
  by (simp add: users_handler_def new_request_handler_def filter_default_def str_int_def
      str_nat_234)

text \<open>
  C7 as stated fails for \<^verbatim>\<open>get(0)\<close>: the id is supplied, and the request goes to
  \<^verbatim>\<open>/users\<close>, not to \<^verbatim>\<open>/users/0\<close>.
\<close>

theorem get_falsy_id_counterexample:
  "calls (snd (get filter_default ok_server users_handler (AInt 0) (PDict [])
                 new_request_handler))
     = [Request_call ''GET'' ''/users'' (PDict [])]
 \<and> ''/users'' \<noteq> ''/users/'' @ py_str (AInt 0)"
  by (simp add: get_def request_eq users_handler_def new_request_handler_def filter_default_def
      Let_def str_int_def str_nat.simps)

section \<open>Authentication\<close>

text \<open>
  C8. On a connection whose auth mechanism is \<^verbatim>\<open>api_key\<close>, \<^verbatim>\<open>auth(u, k)\<close> returns
  without error, makes exactly one call on the request handler,
  \<^verbatim>\<open>add_header('Authorization', 'ApiKey u:k')\<close>, and changes nothing else of the
  connection.
\<close>

theorem auth_api_key_adds_header:
  assumes "auth_mech (meta a) = ''api_key''" and "''api_key'' \<in> set (auth_mechanizms (meta a))"
  shows "auth a [u, k] []
      = (Inr (), a\<lparr>request_h := (request_h a)\<lparr>calls := calls (request_h a) @
            [Add_header_call ''Authorization'' (''ApiKey '' @ py_str u @ '':'' @ py_str k)]\<rparr>\<rparr>)"
  using assms by (simp add: auth_def auth_via_api_key_def bind2_def add_header_def Let_def)

text \<open>
  The theorem at a new connection, whose mechanism is \<^verbatim>\<open>api_key\<close> by default.
\<close>

theorem auth_api_key_adds_header_witness:
  "auth tastypie_api [AStr ''john.doe'', AStr ''34547a497326dde8''] []
      = (Inr (), tastypie_api\<lparr>request_h := \<lparr>calls =
            [Add_header_call ''Authorization'' ''ApiKey john.doe:34547a497326dde8'']\<rparr>\<rparr>)"
  using auth_api_key_adds_header [of tastypie_api "AStr ''john.doe''" "AStr ''34547a497326dde8''"]
  by (simp add: tastypie_api_def API_init_def TastyPieAPI_Meta_def)

text \<open>
  C9. On a connection whose supported mechanisms are \<^verbatim>\<open>['api_key', 'basic']\<close>,
  \<^verbatim>\<open>auth\<close> raises an API error exactly when the configured mechanism is neither of the
  two, whatever its arguments; otherwise it is the call of that mechanism's method, and
  with a user and a secret as its two arguments it returns without error.
\<close>

theorem auth_unknown_mechanism:
  assumes "auth_mechanizms (meta a) = [''api_key'', ''basic'']"
  shows "((\<exists>msg. fst (auth a args kw) = Inl (dRestAPIError msg))
           \<longleftrightarrow> auth_mech (meta a) \<notin> {''api_key'', ''basic''})
       \<and> (auth_mech (meta a) = ''api_key'' \<longrightarrow> auth a args kw = auth_via_api_key a args kw)
       \<and> (auth_mech (meta a) = ''basic'' \<longrightarrow> auth a args kw = auth_via_basic a args kw)
       \<and> (auth_mech (meta a) \<in> {''api_key'', ''basic''} \<longrightarrow> fst (auth a [u, s] []) = Inr ())"
proof -
  have no_api_error_key: "fst (auth_via_api_key a args kw) \<noteq> Inl (dRestAPIError msg)" for msg
    by (auto simp: auth_via_api_key_def bind2_def Let_def
        split: list.splits option.splits sum.splits)
  have no_api_error_basic: "fst (auth_via_basic a args kw) \<noteq> Inl (dRestAPIError msg)" for msg
    by (auto simp: auth_via_basic_def bind2_def API_auth_def
        split: list.splits option.splits sum.splits)
  have ok_key: "fst (auth_via_api_key a [u, s] []) = Inr ()"
    by (simp add: auth_via_api_key_def bind2_def Let_def)
  have ok_basic: "fst (auth_via_basic a [u, s] []) = Inr ()"
    by (simp add: auth_via_basic_def bind2_def API_auth_def)
  show ?thesis
    using assms no_api_error_key no_api_error_basic ok_key ok_basic
    by (auto simp: auth_def Let_def)
qed

text \<open>
  The theorem at a connection configured with the unknown mechanism \<^verbatim>\<open>oauth\<close>, and
  at one with the default.
\<close>

theorem auth_unknown_mechanism_witness:
  "(\<exists>msg. fst (auth (tastypie_api\<lparr>meta := (meta tastypie_api)\<lparr>auth_mech := ''oauth''\<rparr>\<rparr>)
               [AStr ''john.doe'', AStr ''secret''] []) = Inl (dRestAPIError msg))
   \<and> fst (auth tastypie_api [AStr ''john.doe'', AStr ''secret''] []) = Inr ()"
proof -
  let ?oauth = "tastypie_api\<lparr>meta := (meta tastypie_api)\<lparr>auth_mech := ''oauth''\<rparr>\<rparr>"
  have mechs: "auth_mechanizms (meta ?oauth) = [''api_key'', ''basic'']"
      "auth_mechanizms (meta tastypie_api) = [''api_key'', ''basic'']"
    by (simp_all add: tastypie_api_def API_init_def TastyPieAPI_Meta_def)
  have mech: "auth_mech (meta ?oauth) = ''oauth''" "auth_mech (meta tastypie_api) = ''api_key''"
    by (simp_all add: tastypie_api_def API_init_def TastyPieAPI_Meta_def)
  have "\<exists>msg. fst (auth ?oauth [AStr ''john.doe'', AStr ''secret''] []) = Inl (dRestAPIError msg)"
    using auth_unknown_mechanism [OF mechs(1), of "[AStr ''john.doe'', AStr ''secret'']" "[]"]
      mech(1) by simp
  moreover have "fst (auth tastypie_api [AStr ''john.doe'', AStr ''secret''] []) = Inr ()"
    using auth_unknown_mechanism [OF mechs(2), of "[]" "[]" "AStr ''john.doe''" "AStr ''secret''"]
      mech(2) by simp
  ultimately show ?thesis by simp
qed

end
